theory Spec2Isabelle
  imports Main
begin

section \<open>LocateFinderWSL: the search pipeline of \<^verbatim>\<open>LocateGUI\<close>\<close>

text \<open>
  The program is a Tk window around \<^verbatim>\<open>wsl locate\<close>. The embedding keeps the four
  methods of \<^verbatim>\<open>LocateGUI\<close> that carry behaviour (\<^verbatim>\<open>start_search\<close>,
  \<^verbatim>\<open>perform_search\<close>, \<^verbatim>\<open>check_queue\<close>, \<^verbatim>\<open>open_selected_file\<close>) as functions on
  a record of the object's fields. Widget layout is left out.
\<close>

subsection \<open>Python strings\<close>

text \<open>
  A Python \<^verbatim>\<open>str\<close> is a sequence of Unicode code points, so it is a list of
  naturals here; \<open>ascii\<close> embeds the literals of the source.
\<close>

type_synonym pystr = "nat list"

definition ascii :: "string \<Rightarrow> pystr" where
  "ascii s = map of_char s"

definition nl :: nat where
  "nl = 10"

text \<open>
  \<^verbatim>\<open>str.isspace\<close> on one code point, which is what \<^verbatim>\<open>str.strip()\<close> without
  argument removes: U+0009..U+000D, U+001C..U+0020, U+0085, U+00A0, U+1680,
  U+2000..U+200A, U+2028, U+2029, U+202F, U+205F, U+3000.
\<close>

definition isspace :: "nat \<Rightarrow> bool" where
  "isspace c =
     ((9 \<le> c \<and> c \<le> 13) \<or> (28 \<le> c \<and> c \<le> 32) \<or> c = 133 \<or> c = 160 \<or> c = 5760 \<or>
      (8192 \<le> c \<and> c \<le> 8202) \<or> c = 8232 \<or> c = 8233 \<or> c = 8239 \<or> c = 8287 \<or>
      c = 12288)"

definition strip :: "pystr \<Rightarrow> pystr" where
  "strip s = rev (dropWhile isspace (rev (dropWhile isspace s)))"

text \<open>
  \<^verbatim>\<open>s.split(sep)\<close> for a one-character separator: the empty string gives one empty
  field, and every separator starts a new field.
\<close>

fun split_on :: "'a \<Rightarrow> 'a list \<Rightarrow> 'a list list" where
  "split_on sep [] = [[]]"
| "split_on sep (c # cs) =
     (if c = sep then [] # split_on sep cs
      else (c # hd (split_on sep cs)) # tl (split_on sep cs))"

text \<open>\<^verbatim>\<open>str(n)\<close> for a length: the decimal digits, no sign, no leading zero.\<close>

fun str_nat :: "nat \<Rightarrow> pystr" where
  "str_nat n = (if n < 10 then [48 + n] else str_nat (n div 10) @ [48 + n mod 10])"

declare str_nat.simps [simp del]

subsection \<open>Exceptions and the external processes\<close>

text \<open>
  The classes of exception that the calls of this program raise, all of them
  subclasses of \<^verbatim>\<open>Exception\<close>: \<^verbatim>\<open>OSError\<close> when the process cannot be spawned,
  \<^verbatim>\<open>ValueError\<close> for an argument with an embedded NUL, \<^verbatim>\<open>UnicodeDecodeError\<close>
  when the captured output is not UTF-8, and \<^verbatim>\<open>subprocess.CalledProcessError\<close>,
  which \<^verbatim>\<open>subprocess.run\<close> raises for a non-zero exit status only when it is
  called with \<^verbatim>\<open>check=True\<close>.
\<close>

datatype exc_class = OSError | ValueError | UnicodeDecodeError | CalledProcessError

record py_exception =
  exc_type :: exc_class
  exc_text :: pystr \<comment> \<open>\<^verbatim>\<open>str(e)\<close>\<close>

text \<open>The two \<^verbatim>\<open>except\<close> clauses of the source and what each one catches.\<close>

datatype except_clause = Exception | SubprocessCalledProcessError

fun catches :: "except_clause \<Rightarrow> exc_class \<Rightarrow> bool" where
  "catches Exception c = True"
| "catches SubprocessCalledProcessError c = (c = CalledProcessError)"

text \<open>
  A call \<^verbatim>\<open>subprocess.run(cmd, ...)\<close> that comes back either raises or returns a
  \<^verbatim>\<open>CompletedProcess\<close> with the exit status and the decoded output streams. The
  operating system is a parameter \<open>run\<close> of the functions below, from the argument
  vector to this outcome.
\<close>

datatype run_outcome =
    Raised py_exception
  | Completed int pystr pystr \<comment> \<open>returncode, stdout, stderr\<close>

type_synonym os = "pystr list \<Rightarrow> run_outcome"

subsection \<open>The object\<close>

text \<open>
  The messages on \<^verbatim>\<open>self.queue\<close> are the tuples \<^verbatim>\<open>('results', paths)\<close> and
  \<^verbatim>\<open>('error', str(e))\<close>.
\<close>

datatype msg = Results "pystr list" | Error pystr

text \<open>
  The fields of \<^verbatim>\<open>LocateGUI\<close> with the widget state they stand for. The last three
  fields record effects outside the object: the worker threads started (by their
  argument), the argument vectors handed to \<^verbatim>\<open>subprocess.run\<close>, and the number
  of \<^verbatim>\<open>root.after(100, self.check_queue)\<close> registrations.
\<close>

record gui =
  search_var :: pystr
  ignore_case :: bool
  exist_only :: bool
  basename_only :: bool
  results_list :: "pystr list"
  curselection :: "nat list"
  status_var :: pystr
  progress_shown :: bool \<comment> \<open>\<^verbatim>\<open>grid()\<close> / \<^verbatim>\<open>grid_remove()\<close>\<close>
  progress_running :: bool \<comment> \<open>\<^verbatim>\<open>start(10)\<close> / \<^verbatim>\<open>stop()\<close>\<close>
  search_button_enabled :: bool \<comment> \<open>state \<^verbatim>\<open>'normal'\<close> / \<^verbatim>\<open>'disabled'\<close>\<close>
  queue :: "msg list" \<comment> \<open>FIFO, head is the next message out\<close>
  threads :: "pystr list"
  subprocess_calls :: "pystr list list"
  after_calls :: nat

subsection \<open>\<^verbatim>\<open>start_search\<close>\<close>

text \<open>
  Deleting every row of a Tk listbox also empties its selection, so
  \<^verbatim>\<open>results_list.delete(0, tk.END)\<close> resets both.
\<close>

definition start_search :: "gui \<Rightarrow> gui" where
  "start_search g =
     (let search_term = search_var g in
      if search_term = [] then g\<lparr>status_var := ascii ''Please enter a search term''\<rparr>
      else g\<lparr>results_list := [],
             curselection := [],
             progress_shown := True,
             progress_running := True,
             search_button_enabled := False,
             status_var := ascii ''Searching...'',
             threads := threads g @ [search_term]\<rparr>)"

subsection \<open>\<^verbatim>\<open>perform_search\<close>\<close>

definition build_cmd :: "gui \<Rightarrow> pystr \<Rightarrow> pystr list" where
  "build_cmd g search_term =
     (let cmd = [ascii ''wsl'', ascii ''locate''];
          cmd = (if ignore_case g then cmd @ [ascii ''--ignore-case''] else cmd);
          cmd = (if exist_only g then cmd @ [ascii ''--existing''] else cmd);
          cmd = (if basename_only g then cmd @ [ascii ''--basename''] else cmd)
      in cmd @ [search_term])"

text \<open>Lines 170 and 173: \<^verbatim>\<open>stdout.strip().split('\n')\<close>, then the empty strings dropped.\<close>

definition parse_paths :: "pystr \<Rightarrow> pystr list" where
  "parse_paths out =
     (let paths = split_on nl (strip out) in filter (\<lambda>p. p \<noteq> []) paths)"

text \<open>
  For comparison with \<open>parse_paths\<close>, the lines of a text as the specification
  words them: the text split at its newlines, the empty lines discarded, the
  others kept as they are and in their order.
\<close>

definition nonempty_lines :: "pystr \<Rightarrow> pystr list" where
  "nonempty_lines out = filter (\<lambda>line. line \<noteq> []) (split_on nl out)"

text \<open>
  The result is the exception that leaves the method, if any, and the object
  afterwards.
\<close>

definition perform_search :: "os \<Rightarrow> pystr \<Rightarrow> gui \<Rightarrow> py_exception option \<times> gui" where
  "perform_search run search_term g =
     (let cmd = build_cmd g search_term;
          g1 = g\<lparr>subprocess_calls := subprocess_calls g @ [cmd]\<rparr>
      in case run cmd of
           Completed returncode out err \<Rightarrow>
             (None, g1\<lparr>queue := queue g1 @ [Results (parse_paths out)]\<rparr>)
         | Raised e \<Rightarrow>
             (if catches Exception (exc_type e)
              then (None, g1\<lparr>queue := queue g1 @ [Error (exc_text e)]\<rparr>)
              else (Some e, g1)))"

subsection \<open>\<^verbatim>\<open>check_queue\<close>\<close>

text \<open>The body of the \<^verbatim>\<open>while True\<close> loop, for the message just taken.\<close>

fun check_queue_body :: "msg \<Rightarrow> gui \<Rightarrow> gui" where
  "check_queue_body (Results data) g =
     g\<lparr>results_list := foldl (\<lambda>rows path. rows @ [path]) (results_list g) data,
       status_var := ascii ''Found '' @ str_nat (length data) @ ascii '' results'',
       progress_running := False,
       progress_shown := False,
       search_button_enabled := True\<rparr>"
| "check_queue_body (Error data) g =
     g\<lparr>status_var := ascii ''Error: '' @ data,
       progress_running := False,
       progress_shown := False,
       search_button_enabled := True\<rparr>"

text \<open>
  \<^verbatim>\<open>get_nowait\<close> raises \<^verbatim>\<open>queue.Empty\<close> on the empty queue, which the
  \<^verbatim>\<open>except Exception: pass\<close> around the loop swallows: the loop ends there.
\<close>

function check_queue_loop :: "gui \<Rightarrow> gui" where
  "check_queue_loop g =
     (case queue g of
        [] \<Rightarrow> g
      | m # ms \<Rightarrow> check_queue_loop (check_queue_body m (g\<lparr>queue := ms\<rparr>)))"
  by pat_completeness auto
termination
proof (relation "measure (\<lambda>g. length (queue g))")
  show "wf (measure (\<lambda>g. length (queue g)))"
    by simp
next
  fix g :: gui and m ms
  assume "queue g = m # ms"
  then show "(check_queue_body m (g\<lparr>queue := ms\<rparr>), g) \<in> measure (\<lambda>g. length (queue g))"
    by (cases m) simp_all
qed

declare check_queue_loop.simps [simp del]

definition check_queue :: "gui \<Rightarrow> gui" where
  "check_queue g =
     (let g' = check_queue_loop g in g'\<lparr>after_calls := Suc (after_calls g')\<rparr>)"

subsection \<open>\<^verbatim>\<open>open_selected_file\<close>\<close>

text \<open>\<^verbatim>\<open>Listbox.get(i)\<close>: the row, or the empty string outside the list.\<close>

definition listbox_get :: "pystr list \<Rightarrow> nat \<Rightarrow> pystr" where
  "listbox_get rows i = (if i < length rows then rows ! i else [])"

text \<open>The \<^verbatim>\<open>except subprocess.CalledProcessError as e\<close> clause of the method.\<close>

definition open_except :: "py_exception \<Rightarrow> gui \<Rightarrow> py_exception option \<times> gui" where
  "open_except e g =
     (if catches SubprocessCalledProcessError (exc_type e)
      then (None, g\<lparr>status_var := ascii ''Error opening file: '' @ exc_text e\<rparr>)
      else (Some e, g))"

definition open_selected_file :: "os \<Rightarrow> gui \<Rightarrow> py_exception option \<times> gui" where
  "open_selected_file run g =
     (case curselection g of
        [] \<Rightarrow> (None, g)
      | i # rest \<Rightarrow>
          (let wsl_path = listbox_get (results_list g) i;
               cmd1 = [ascii ''wsl'', ascii ''wslpath'', ascii ''-w'', wsl_path];
               g1 = g\<lparr>subprocess_calls := subprocess_calls g @ [cmd1]\<rparr>
           in case run cmd1 of
                Raised e \<Rightarrow> open_except e g1
              | Completed returncode out err \<Rightarrow>
                  (let windows_path = strip out;
                       cmd2 = [ascii ''explorer.exe'', ascii ''/select,'', windows_path];
                       g2 = g1\<lparr>subprocess_calls := subprocess_calls g1 @ [cmd2]\<rparr>
                   in case run cmd2 of
                        Raised e \<Rightarrow> open_except e g2
                      | Completed returncode2 out2 err2 \<Rightarrow> (None, g2))))"

subsection \<open>Concrete inputs\<close>

text \<open>A stub operating system that answers every command with the same outcome.\<close>

definition const_os :: "run_outcome \<Rightarrow> os" where
  "const_os r cmd = r"

text \<open>
  The object as \<^verbatim>\<open>__init__\<close> leaves it: the entry empty, the first two options
  ticked, no rows, the progress bar hidden, and \<^verbatim>\<open>check_queue\<close> called once.
\<close>

definition new_gui :: gui where
  "new_gui =
     check_queue
       \<lparr>search_var = [], ignore_case = True, exist_only = True, basename_only = False,
        results_list = [], curselection = [], status_var = [],
        progress_shown = False, progress_running = False, search_button_enabled = True,
        queue = [], threads = [], subprocess_calls = [], after_calls = 0\<rparr>"

section \<open>Properties\<close>

subsection \<open>Auxiliary facts\<close>

lemma ascii_eq_iff [simp]: "ascii s = ascii t \<longleftrightarrow> s = t"
  unfolding ascii_def by (simp add: inj_map_eq_map inj_on_def)

lemma insert_rows: "foldl (\<lambda>rows path. rows @ [path]) rows data = rows @ data"
  by (induction data arbitrary: rows) simp_all

lemma queue_check_queue_body [simp]: "queue (check_queue_body m g) = queue g"
  by (cases m) simp_all

lemma check_queue_body_queue_update:
  "check_queue_body m (g\<lparr>queue := q\<rparr>) = (check_queue_body m g)\<lparr>queue := q\<rparr>"
  by (cases m) simp_all

lemma check_queue_loop_Nil: "queue g = [] \<Longrightarrow> check_queue_loop g = g"
  by (simp add: check_queue_loop.simps)

lemma check_queue_loop_Cons:
  "queue g = m # ms \<Longrightarrow> check_queue_loop g = check_queue_loop (check_queue_body m (g\<lparr>queue := ms\<rparr>))"
  by (subst check_queue_loop.simps) simp

lemma foldl_body_queue_update:
  "foldl (\<lambda>s m. check_queue_body m s) (g\<lparr>queue := q\<rparr>) ms =
   (foldl (\<lambda>s m. check_queue_body m s) g ms)\<lparr>queue := q\<rparr>"
  by (induction ms arbitrary: g) (simp_all add: check_queue_body_queue_update)

lemma queue_foldl_body [simp]:
  "queue (foldl (\<lambda>s m. check_queue_body m s) g ms) = queue g"
  by (induction ms arbitrary: g) simp_all

lemma check_queue_loop_foldl:
  "queue g = ms \<Longrightarrow>
   check_queue_loop g = (foldl (\<lambda>s m. check_queue_body m s) g ms)\<lparr>queue := []\<rparr>"
proof (induction ms arbitrary: g)
  case Nil
  then show ?case by (simp add: check_queue_loop_Nil)
next
  case (Cons m ms)
  have q: "queue (check_queue_body m (g\<lparr>queue := ms\<rparr>)) = ms"
    by simp
  have "check_queue_loop g = check_queue_loop (check_queue_body m (g\<lparr>queue := ms\<rparr>))"
    using Cons.prems by (rule check_queue_loop_Cons)
  also have "\<dots> = (foldl (\<lambda>s m. check_queue_body m s) (check_queue_body m (g\<lparr>queue := ms\<rparr>)) ms)\<lparr>queue := []\<rparr>"
    using q by (rule Cons.IH)
  finally show ?case
    by (simp add: check_queue_body_queue_update foldl_body_queue_update)
qed

lemma check_queue_foldl:
  "check_queue g =
   (foldl (\<lambda>s m. check_queue_body m s) g (queue g))\<lparr>queue := [], after_calls := Suc (after_calls g)\<rparr>"
proof -
  have a: "after_calls (foldl (\<lambda>s m. check_queue_body m s) g ms) = after_calls g" for ms
  proof (induction ms arbitrary: g)
    case Nil
    show ?case by simp
  next
    case (Cons m ms)
    then show ?case by (cases m) simp_all
  qed
  show ?thesis
    by (simp add: check_queue_def Let_def check_queue_loop_foldl [OF refl] a)
qed

lemma new_gui_eq: "new_gui = \<lparr>search_var = [], ignore_case = True, exist_only = True, basename_only = False,
        results_list = [], curselection = [], status_var = [],
        progress_shown = False, progress_running = False, search_button_enabled = True,
        queue = [], threads = [], subprocess_calls = [], after_calls = 1\<rparr>"
  by (simp add: new_gui_def check_queue_def check_queue_loop_Nil)

text \<open>Splitting, stripping and the non-empty lines.\<close>

lemma split_on_not_Nil [simp]: "split_on sep s \<noteq> []"
  by (cases s) simp_all

lemma split_on_snoc_sep: "split_on sep (s @ [sep]) = split_on sep s @ [[]]"
proof (induction s)
  case Nil
  show ?case by simp
next
  case (Cons c cs)
  then show ?case by (cases "split_on sep cs") simp_all
qed

lemma nonempty_lines_leading: "nonempty_lines (replicate k nl @ s) = nonempty_lines s"
  by (induction k) (simp_all add: nonempty_lines_def)

lemma nonempty_lines_trailing: "nonempty_lines (s @ replicate k nl) = nonempty_lines s"
proof (induction k)
  case 0
  show ?case by simp
next
  case (Suc k)
  have "s @ replicate (Suc k) nl = (s @ replicate k nl) @ [nl]"
    by (simp add: replicate_append_same)
  then have "nonempty_lines (s @ replicate (Suc k) nl) = nonempty_lines (s @ replicate k nl)"
    by (simp only: nonempty_lines_def split_on_snoc_sep) simp
  with Suc show ?case by simp
qed

lemma only_nl_replicate: "set xs \<subseteq> {nl} \<Longrightarrow> xs = replicate (length xs) nl"
  by (induction xs) simp_all

lemma strip_decompose:
  "s = takeWhile isspace s @ strip s @ rev (takeWhile isspace (rev (dropWhile isspace s)))"
proof -
  let ?d = "dropWhile isspace s"
  have "rev ?d = takeWhile isspace (rev ?d) @ dropWhile isspace (rev ?d)"
    by simp
  then have "?d = rev (dropWhile isspace (rev ?d)) @ rev (takeWhile isspace (rev ?d))"
    by (metis rev_append rev_rev_ident)
  then have "takeWhile isspace s @ ?d = takeWhile isspace s @ strip s @ rev (takeWhile isspace (rev ?d))"
    by (simp add: strip_def)
  then show ?thesis by simp
qed

lemma trailing_run:
  "takeWhile isspace (rev (dropWhile isspace s)) = [] \<or>
   takeWhile isspace (rev (dropWhile isspace s)) = takeWhile isspace (rev s)"
proof (cases "dropWhile isspace s")
  case Nil
  have "takeWhile isspace (rev []) = ([] :: nat list)"
    by simp
  then show ?thesis
    by (simp only: Nil) simp
next
  case (Cons c cs)
  then have c: "\<not> isspace c"
    by (metis hd_dropWhile list.sel(1) list.distinct(1))
  have "rev s = rev (dropWhile isspace s) @ rev (takeWhile isspace s)"
    by (metis rev_append takeWhile_dropWhile_id)
  moreover have "c \<in> set (rev (dropWhile isspace s))"
    using Cons by simp
  ultimately show ?thesis
    using c by (metis takeWhile_append1)
qed

lemma nonempty_lines_strip:
  assumes "set (takeWhile isspace s) \<subseteq> {nl}" and "set (takeWhile isspace (rev s)) \<subseteq> {nl}"
  shows "nonempty_lines (strip s) = nonempty_lines s"
proof -
  let ?a = "takeWhile isspace s"
  let ?b = "takeWhile isspace (rev (dropWhile isspace s))"
  have "set ?b \<subseteq> {nl}"
    using trailing_run [of s] assms(2) by auto
  then have "set (rev ?b) \<subseteq> {nl}" by simp
  then have b: "rev ?b = replicate (length (rev ?b)) nl"
    by (rule only_nl_replicate)
  have a: "?a = replicate (length ?a) nl"
    using assms(1) by (rule only_nl_replicate)
  have "nonempty_lines s = nonempty_lines (?a @ strip s @ rev ?b)"
    using strip_decompose [of s] by simp
  also have "\<dots> = nonempty_lines (strip s @ rev ?b)"
    by (subst a) (rule nonempty_lines_leading)
  also have "\<dots> = nonempty_lines (strip s)"
    by (subst b) (rule nonempty_lines_trailing)
  finally show ?thesis by simp
qed

lemma parse_paths_nonempty_lines: "parse_paths out = nonempty_lines (strip out)"
  by (simp add: parse_paths_def nonempty_lines_def)

lemma strip_blank:
  assumes "\<forall>c\<in>set s. isspace c"
  shows "strip s = []"
proof -
  have d: "dropWhile isspace s = []"
    using assms by simp
  show ?thesis
    unfolding strip_def d by simp
qed

text \<open>The two ways out of \<^verbatim>\<open>perform_search\<close>, and one poll seen from its last message.\<close>

lemma perform_search_Completed:
  "run (build_cmd g t) = Completed rc out err \<Longrightarrow>
   perform_search run t g =
     (None, g\<lparr>subprocess_calls := subprocess_calls g @ [build_cmd g t],
              queue := queue g @ [Results (parse_paths out)]\<rparr>)"
  by (simp add: perform_search_def Let_def)



lemma check_queue_snoc:
  "queue g = ms @ [m] \<Longrightarrow>
   check_queue g =
     (check_queue_body m (foldl (\<lambda>s m. check_queue_body m s) g ms))
       \<lparr>queue := [], after_calls := Suc (after_calls g)\<rparr>"
  by (simp add: check_queue_foldl)

text \<open>
  \<^verbatim>\<open>open_selected_file\<close> changes the status line only in its handler for
  \<^verbatim>\<open>subprocess.CalledProcessError\<close>: under an operating system that never raises
  this class, which is every call of \<^verbatim>\<open>subprocess.run\<close> without \<^verbatim>\<open>check=True\<close>,
  the status line and the rows stay as they were.
\<close>

lemma open_except_fields:
  "exc_type e \<noteq> CalledProcessError \<Longrightarrow> open_except e g = (Some e, g)"
  by (simp add: open_except_def)

lemma open_selected_file_status_kept:
  assumes "\<And>cmd e. run cmd = Raised e \<Longrightarrow> exc_type e \<noteq> CalledProcessError"
  shows "status_var (snd (open_selected_file run g)) = status_var g \<and>
         results_list (snd (open_selected_file run g)) = results_list g"
  using assms
  by (auto simp add: open_selected_file_def Let_def open_except_fields
      split: list.split run_outcome.split)

subsection \<open>Dispatch: \<^verbatim>\<open>perform_search\<close>\<close>

text \<open>
  C1. Whatever the external invocation does on coming back, \<^verbatim>\<open>perform_search\<close>
  returns normally (no exception leaves it) and appends exactly one message to the
  queue: \<^verbatim>\<open>('results', paths)\<close> when the process completed, and
  \<^verbatim>\<open>('error', str(e))\<close> when the invocation raised.
\<close>

theorem perform_search_one_outcome:
  "fst (perform_search run t g) = None \<and>
   queue (snd (perform_search run t g)) =
     queue g @ [case run (build_cmd g t) of
                  Completed rc out err \<Rightarrow> Results (parse_paths out)
                | Raised e \<Rightarrow> Error (exc_text e)]"
  by (simp add: perform_search_def Let_def split: run_outcome.split)

text \<open>
  C3. The command is \<^verbatim>\<open>wsl locate\<close>, then the flags, then the search term as last
  argument. Among the flags, \<^verbatim>\<open>--ignore-case\<close> occurs iff \<^verbatim>\<open>ignore_case\<close> is
  set, \<^verbatim>\<open>--existing\<close> iff \<^verbatim>\<open>exist_only\<close> is set, \<^verbatim>\<open>--basename\<close> iff
  \<^verbatim>\<open>basename_only\<close> is set, always in this relative order and nothing else. With
  ignore-case and basename set, existing unset and the term \<^verbatim>\<open>x\<close>, the command is
  \<^verbatim>\<open>wsl locate --ignore-case --basename x\<close>.
\<close>

theorem build_cmd_flags:
  "take 2 (build_cmd g t) = [ascii ''wsl'', ascii ''locate''] \<and>
   last (build_cmd g t) = t \<and>
   build_cmd g t = take 2 (build_cmd g t) @ butlast (drop 2 (build_cmd g t)) @ [t] \<and>
   (ascii ''--ignore-case'' \<in> set (butlast (drop 2 (build_cmd g t))) \<longleftrightarrow> ignore_case g) \<and>
   (ascii ''--existing'' \<in> set (butlast (drop 2 (build_cmd g t))) \<longleftrightarrow> exist_only g) \<and>
   (ascii ''--basename'' \<in> set (butlast (drop 2 (build_cmd g t))) \<longleftrightarrow> basename_only g) \<and>
   butlast (drop 2 (build_cmd g t)) =
     filter (\<lambda>f. f \<in> set (butlast (drop 2 (build_cmd g t))))
       [ascii ''--ignore-case'', ascii ''--existing'', ascii ''--basename''] \<and>
   build_cmd (g\<lparr>ignore_case := True, exist_only := False, basename_only := True\<rparr>) (ascii ''x'') =
     [ascii ''wsl'', ascii ''locate'', ascii ''--ignore-case'', ascii ''--basename'', ascii ''x'']"
  by (simp add: build_cmd_def Let_def)

text \<open>
  C4, as the code has it. On completion the message is \<^verbatim>\<open>('results', paths)\<close>
  where \<open>paths\<close> are the non-empty lines, in order, of the output with its
  leading and trailing whitespace stripped first. When the whitespace at the start
  and at the end of the output is newlines only, these are exactly the non-empty
  lines of the output itself. The lines \<^verbatim>\<open>a/b/c\<close>, empty, \<^verbatim>\<open>a/b/d\<close> give
  the paths \<^verbatim>\<open>a/b/c\<close>, \<^verbatim>\<open>a/b/d\<close>.
\<close>

theorem perform_search_results_lines:
  assumes "run (build_cmd g t) = Completed rc out err"
  shows "queue (snd (perform_search run t g)) = queue g @ [Results (nonempty_lines (strip out))] \<and>
         (set (takeWhile isspace out) \<subseteq> {nl} \<and> set (takeWhile isspace (rev out)) \<subseteq> {nl} \<longrightarrow>
          queue (snd (perform_search run t g)) = queue g @ [Results (nonempty_lines out)]) \<and>
         parse_paths (ascii ''a/b/c'' @ [nl] @ [] @ [nl] @ ascii ''a/b/d'') =
           [ascii ''a/b/c'', ascii ''a/b/d'']"
proof (intro conjI impI)
  show "queue (snd (perform_search run t g)) = queue g @ [Results (nonempty_lines (strip out))]"
    using assms by (simp add: perform_search_Completed parse_paths_nonempty_lines)
next
  assume "set (takeWhile isspace out) \<subseteq> {nl} \<and> set (takeWhile isspace (rev out)) \<subseteq> {nl}"
  then have "nonempty_lines (strip out) = nonempty_lines out"
    by (simp add: nonempty_lines_strip)
  then show "queue (snd (perform_search run t g)) = queue g @ [Results (nonempty_lines out)]"
    using assms by (simp add: perform_search_Completed parse_paths_nonempty_lines)
next
  show "parse_paths (ascii ''a/b/c'' @ [nl] @ [] @ [nl] @ ascii ''a/b/d'') =
      [ascii ''a/b/c'', ascii ''a/b/d'']"
    by (simp add: parse_paths_def strip_def isspace_def ascii_def nl_def)
qed

theorem perform_search_results_lines_witness:
  "queue (snd (perform_search
      (const_os (Completed 0 (ascii ''a/b/c'' @ [nl] @ [nl] @ ascii ''a/b/d'' @ [nl]) []))
      (ascii ''b'') new_gui)) =
   [Results [ascii ''a/b/c'', ascii ''a/b/d'']]"
  using perform_search_results_lines
    [of "const_os (Completed 0 (ascii ''a/b/c'' @ [nl] @ [nl] @ ascii ''a/b/d'' @ [nl]) [])"
        new_gui "ascii ''b''" 0 "ascii ''a/b/c'' @ [nl] @ [nl] @ ascii ''a/b/d'' @ [nl]" "[]"]
  by (simp add: const_os_def new_gui_eq nonempty_lines_def strip_def isspace_def ascii_def nl_def)

text \<open>
  C4, as the claim words it for every output, fails: for the output
  \<^verbatim>\<open>/tmp/foo \<close> followed by a newline, a file name ending in a space, the
  message holds \<^verbatim>\<open>/tmp/foo\<close> without the space, while the only non-empty line
  of the output is \<^verbatim>\<open>/tmp/foo \<close> with it.
\<close>

theorem perform_search_results_lines_counterexample:
  "queue (snd (perform_search (const_os (Completed 0 (ascii ''/tmp/foo '' @ [nl]) []))
      (ascii ''foo'') new_gui)) = [Results [ascii ''/tmp/foo'']] \<and>
   nonempty_lines (ascii ''/tmp/foo '' @ [nl]) = [ascii ''/tmp/foo ''] \<and>
   queue (snd (perform_search (const_os (Completed 0 (ascii ''/tmp/foo '' @ [nl]) []))
      (ascii ''foo'') new_gui)) \<noteq>
     queue new_gui @ [Results (nonempty_lines (ascii ''/tmp/foo '' @ [nl]))]"
  by (simp add: perform_search_def const_os_def new_gui_eq Let_def parse_paths_def strip_def
      nonempty_lines_def isspace_def ascii_def nl_def)

text \<open>
  C8. The exit status plays no part: two completed invocations with the same
  standard output give the same result of \<^verbatim>\<open>perform_search\<close> whatever their
  exit statuses and error streams are, and that result is a normal return with a
  \<^verbatim>\<open>('results', paths)\<close> message, never an error message.
\<close>

theorem perform_search_ignores_returncode:
  assumes "run (build_cmd g t) = Completed rc out err"
    and "run' (build_cmd g t) = Completed rc' out err'"
  shows "perform_search run t g = perform_search run' t g \<and>
         fst (perform_search run t g) = None \<and>
         queue (snd (perform_search run t g)) = queue g @ [Results (parse_paths out)]"
  using assms by (simp add: perform_search_Completed)

theorem perform_search_ignores_returncode_witness:
  "perform_search (const_os (Completed 1 (ascii ''/etc/hosts'' @ [nl]) (ascii ''locate: warning''))) (ascii ''hosts'') new_gui =
   perform_search (const_os (Completed 0 (ascii ''/etc/hosts'' @ [nl]) [])) (ascii ''hosts'') new_gui \<and>
   queue (snd (perform_search (const_os (Completed 1 (ascii ''/etc/hosts'' @ [nl]) (ascii ''locate: warning''))) (ascii ''hosts'') new_gui)) =
     [Results [ascii ''/etc/hosts'']]"
  using perform_search_ignores_returncode
    [of "const_os (Completed 1 (ascii ''/etc/hosts'' @ [nl]) (ascii ''locate: warning''))"
        new_gui "ascii ''hosts''" 1 "ascii ''/etc/hosts'' @ [nl]" "ascii ''locate: warning''"
        "const_os (Completed 0 (ascii ''/etc/hosts'' @ [nl]) [])" 0 "[]"]
  by (simp add: const_os_def new_gui_eq parse_paths_def strip_def isspace_def ascii_def nl_def
      perform_search_def Let_def)

text \<open>
  C10. When the invocation completes and its output is empty or whitespace only,
  \<^verbatim>\<open>perform_search\<close> returns normally with the message \<^verbatim>\<open>('results', [])\<close>,
  and the poll that takes it sets the status line to \<^verbatim>\<open>Found 0 results\<close>.
\<close>

theorem perform_search_blank_output:
  assumes "run (build_cmd g t) = Completed rc out err" and "\<forall>c\<in>set out. isspace c"
  shows "fst (perform_search run t g) = None \<and>
         queue (snd (perform_search run t g)) = queue g @ [Results []] \<and>
         status_var (check_queue (snd (perform_search run t g))) = ascii ''Found 0 results''"
proof -
  have p: "parse_paths out = []"
    using assms(2) by (simp add: parse_paths_def strip_blank)
  have s: "perform_search run t g =
      (None, g\<lparr>subprocess_calls := subprocess_calls g @ [build_cmd g t],
               queue := queue g @ [Results []]\<rparr>)"
    using assms(1) p by (simp add: perform_search_Completed)
  have "status_var (check_queue (snd (perform_search run t g))) =
      ascii ''Found '' @ str_nat 0 @ ascii '' results''"
    by (simp add: s check_queue_snoc [where ms = "queue g" and m = "Results []"])
  also have "\<dots> = ascii ''Found 0 results''"
    by (simp add: ascii_def str_nat.simps)
  finally show ?thesis
    using s by simp
qed

theorem perform_search_blank_output_witness:
  "queue (snd (perform_search (const_os (Completed 0 [32, nl, 9, nl] [])) (ascii ''zzz'') new_gui)) =
     [Results []] \<and>
   status_var (check_queue (snd (perform_search (const_os (Completed 0 [32, nl, 9, nl] []))
     (ascii ''zzz'') new_gui))) = ascii ''Found 0 results''"
  using perform_search_blank_output
    [of "const_os (Completed 0 [32, nl, 9, nl] [])" new_gui "ascii ''zzz''" 0 "[32, nl, 9, nl]" "[]"]
  by (simp add: const_os_def new_gui_eq isspace_def nl_def)

subsection \<open>Poll: \<^verbatim>\<open>check_queue\<close>\<close>

text \<open>
  C5. \<^verbatim>\<open>check_queue\<close> is a total function (its loop ends on the empty queue, where
  \<^verbatim>\<open>get_nowait\<close> returns at once). On an empty queue it changes nothing but the
  registration of the next poll. On a queue of any length it leaves the queue
  empty, having applied the loop body to every pending message in FIFO order.
\<close>

theorem check_queue_drains:
  "(queue g = [] \<longrightarrow> check_queue g = g\<lparr>after_calls := Suc (after_calls g)\<rparr>) \<and>
   queue (check_queue g) = [] \<and>
   check_queue g =
     (foldl (\<lambda>s m. check_queue_body m s) g (queue g))
       \<lparr>queue := [], after_calls := Suc (after_calls g)\<rparr>"
proof (intro conjI impI)
  assume "queue g = []"
  then show "check_queue g = g\<lparr>after_calls := Suc (after_calls g)\<rparr>"
    by (simp add: check_queue_foldl)
next
  show "queue (check_queue g) = []"
    by (simp add: check_queue_foldl)
next
  show "check_queue g =
     (foldl (\<lambda>s m. check_queue_body m s) g (queue g))
       \<lparr>queue := [], after_calls := Suc (after_calls g)\<rparr>"
    by (rule check_queue_foldl)
qed

theorem check_queue_drains_witness:
  "check_queue new_gui = new_gui\<lparr>after_calls := 2\<rparr> \<and>
   check_queue (new_gui\<lparr>queue := [Error (ascii ''boom''), Results [ascii ''/a'', ascii ''/b'']]\<rparr>) =
     new_gui\<lparr>results_list := [ascii ''/a'', ascii ''/b''],
             status_var := ascii ''Found 2 results'',
             after_calls := 2\<rparr>"
  using check_queue_drains [of new_gui]
    check_queue_drains [of "new_gui\<lparr>queue := [Error (ascii ''boom''), Results [ascii ''/a'', ascii ''/b'']]\<rparr>"]
  by (simp add: new_gui_eq ascii_def str_nat.simps)




subsection \<open>Trigger: \<^verbatim>\<open>start_search\<close>\<close>

text \<open>
  C7. With an empty search term, \<^verbatim>\<open>start_search\<close> only sets the status line to
  \<^verbatim>\<open>Please enter a search term\<close>: no worker thread is started, no process is
  spawned, nothing is put on the queue, and every other field keeps its value.
\<close>

theorem start_search_empty_term:
  assumes "search_var g = []"
  shows "start_search g = g\<lparr>status_var := ascii ''Please enter a search term''\<rparr> \<and>
         threads (start_search g) = threads g \<and>
         subprocess_calls (start_search g) = subprocess_calls g \<and>
         queue (start_search g) = queue g"
  using assms by (simp add: start_search_def)

theorem start_search_empty_term_witness:
  "start_search new_gui = new_gui\<lparr>status_var := ascii ''Please enter a search term''\<rparr> \<and>
   threads (start_search new_gui) = [] \<and> subprocess_calls (start_search new_gui) = []"
  using start_search_empty_term [of new_gui]
  by (simp add: new_gui_eq)

subsection \<open>Opening a row: \<^verbatim>\<open>open_selected_file\<close>\<close>

text \<open>
  C9. With no row selected, \<^verbatim>\<open>open_selected_file\<close> returns at once: no process
  is spawned and the object, its status line included, is unchanged.
\<close>

theorem open_selected_file_no_selection:
  assumes "curselection g = []"
  shows "open_selected_file run g = (None, g)"
  using assms by (simp add: open_selected_file_def)

theorem open_selected_file_no_selection_witness:
  "open_selected_file (const_os (Completed 0 [] []))
     (new_gui\<lparr>results_list := [ascii ''/etc/hosts''], status_var := ascii ''Found 1 results''\<rparr>) =
   (None, new_gui\<lparr>results_list := [ascii ''/etc/hosts''], status_var := ascii ''Found 1 results''\<rparr>)"
  using open_selected_file_no_selection
    [of "new_gui\<lparr>results_list := [ascii ''/etc/hosts''], status_var := ascii ''Found 1 results''\<rparr>"
        "const_os (Completed 0 [] [])"]
  by (simp add: new_gui_eq)

text \<open>
  C2. The path translation fails and the status line does not report it. With the
  row \<^verbatim>\<open>/mnt/c/a.txt\<close> selected and the status line \<^verbatim>\<open>Found 1 results\<close>: when
  \<^verbatim>\<open>wslpath\<close> exits with status 1 and no output, the method goes on to run
  \<^verbatim>\<open>explorer.exe /select,\<close> with an empty path and returns; when the invocation
  raises \<^verbatim>\<open>OSError\<close>, the exception leaves the method. In both cases the status
  line is still \<^verbatim>\<open>Found 1 results\<close>; the rows are untouched.
\<close>

theorem open_selected_file_failure_unreported:
  "open_selected_file
     (const_os (Completed 1 [] (ascii ''wslpath: /mnt/c/a.txt: No such file or directory'')))
     (new_gui\<lparr>results_list := [ascii ''/mnt/c/a.txt''], curselection := [0],
              status_var := ascii ''Found 1 results''\<rparr>) =
   (None,
    new_gui\<lparr>results_list := [ascii ''/mnt/c/a.txt''], curselection := [0],
            status_var := ascii ''Found 1 results'',
            subprocess_calls :=
              [[ascii ''wsl'', ascii ''wslpath'', ascii ''-w'', ascii ''/mnt/c/a.txt''],
               [ascii ''explorer.exe'', ascii ''/select,'', []]]\<rparr>) \<and>
   open_selected_file
     (const_os (Raised \<lparr>exc_type = OSError, exc_text = ascii ''[WinError 2] not found''\<rparr>))
     (new_gui\<lparr>results_list := [ascii ''/mnt/c/a.txt''], curselection := [0],
              status_var := ascii ''Found 1 results''\<rparr>) =
   (Some \<lparr>exc_type = OSError, exc_text = ascii ''[WinError 2] not found''\<rparr>,
    new_gui\<lparr>results_list := [ascii ''/mnt/c/a.txt''], curselection := [0],
            status_var := ascii ''Found 1 results'',
            subprocess_calls :=
              [[ascii ''wsl'', ascii ''wslpath'', ascii ''-w'', ascii ''/mnt/c/a.txt'']]\<rparr>)"
  by (simp add: open_selected_file_def open_except_def const_os_def new_gui_eq listbox_get_def
      strip_def Let_def)

end
